theory Spec2Isabelle
  imports Main "HOL-Library.Word" "HOL-Library.Signed_Division"
begin

section \<open>The session record access layer of postgres/dao.go\<close>

subsection \<open>Machine integers and durations\<close>

text \<open>
  Go's \<open>int64\<close> is a 64-bit word read in two's complement. \<open>time.Duration\<close> is an
  \<open>int64\<close> count of nanoseconds and \<open>time.Second\<close> is 1000000000 of them.
\<close>

type_synonym int64 = "64 word"

definition Second :: int64 where
  "Second = 1000000000"

text \<open>
  Go's \<open>/\<close> on signed integers truncates towards zero and wraps on overflow; the only
  divisor in this file is the non-zero constant \<open>time.Second\<close>, so the division-by-zero
  panic has no branch.
\<close>

definition div_int64 :: "int64 \<Rightarrow> int64 \<Rightarrow> int64" where
  "div_int64 a b = word_of_int (sint a sdiv sint b)"

text \<open>The range of \<open>int64\<close>, for values coming back from the store.\<close>

definition fits_int64 :: "int \<Rightarrow> bool" where
  "fits_int64 v = (- (2 ^ 63) \<le> v \<and> v < 2 ^ 63)"

subsection \<open>Errors, records, the access object\<close>

text \<open>
  \<open>ErrNoRows\<close> is \<open>sql.ErrNoRows\<close>, the one error value the code compares against;
  \<open>Failure\<close> stands for every other error value, with its message.
\<close>

datatype error = ErrNoRows | Failure string

text \<open>
  Modelled from the spec: the declaration of \<open>DBRow\<close> is not in dao.go. Its four fields
  are the ones \<open>getSessionBySessionID\<close> scans into (line 65); \<open>expiration\<close> is a
  \<open>time.Duration\<close> (it is multiplied by \<open>time.Second\<close> on line 69).
\<close>

record DBRow =
  sessionID :: string
  contents :: string
  lastActive :: int64
  expiration :: int64

text \<open>\<open>new(DBRow)\<close>: every field at its zero value.\<close>

definition new_DBRow :: DBRow where
  "new_DBRow = \<lparr>sessionID = [], contents = [], lastActive = 0, expiration = 0\<rparr>"

text \<open>The handle \<open>sql.Open\<close> returns; what it holds is the driver's business.\<close>

datatype sqlDB = DB string string

text \<open>
  Modelled from the spec: the declaration of \<open>Dao\<close> is not in dao.go. These are the fields
  \<open>NewDao\<close> assigns (lines 38 to 51).
\<close>

record Dao =
  Driver :: string
  Dsn :: string
  Connection :: "sqlDB option"
  tableName :: string
  sqlGetSessionBySessionID :: string
  sqlCountSessions :: string
  sqlUpdateBySessionID :: string
  sqlDeleteBySessionID :: string
  sqlDeleteExpiredSessions :: string
  sqlInsert :: string
  sqlRegenerate :: string

text \<open>
  \<open>NewDao\<close> (lines 37 to 54). \<open>sql.Open\<close> is the standard library's, so it is a
  parameter: it returns a handle (nil is \<open>None\<close>) and an error (nil is \<open>None\<close>).
  \<open>fmt.Sprintf\<close> with one \<open>%s\<close> verb and a string argument writes the text before the
  verb, the argument, and the text after it. The returned pointer is \<open>Some\<close> of the
  object; the error of \<open>sql.Open\<close> is returned beside it whatever it is.
\<close>

definition NewDao ::
  "(string \<Rightarrow> string \<Rightarrow> sqlDB option \<times> error option) \<Rightarrow> string \<Rightarrow> string \<Rightarrow> string
     \<Rightarrow> Dao option \<times> error option" where
  "NewDao sqlOpen driver dsn tn =
     (let (conn, err) = sqlOpen driver dsn;
          db = \<lparr>Driver = driver, Dsn = dsn, Connection = conn, tableName = tn,
                sqlGetSessionBySessionID =
                  ''SELECT session_id,contents,last_active,expiration FROM '' @ tn @ '' WHERE session_id=$1'',
                sqlCountSessions = ''SELECT count(*) as total FROM '' @ tn,
                sqlUpdateBySessionID =
                  ''UPDATE '' @ tn @ '' SET contents=$1,last_active=$2,expiration=$3 WHERE session_id=$4'',
                sqlDeleteBySessionID = ''DELETE FROM '' @ tn @ '' WHERE session_id=$1'',
                sqlDeleteExpiredSessions =
                  ''DELETE FROM '' @ tn @ '' WHERE last_active+expiration<=$1 AND expiration<>0'',
                sqlInsert =
                  ''INSERT INTO '' @ tn @ '' (session_id, contents, last_active, expiration) VALUES ($1,$2,$3,$4)'',
                sqlRegenerate =
                  ''UPDATE '' @ tn @ '' SET session_id=$1,last_active=$2,expiration=$3 WHERE session_id=$4''\<rparr>
      in (Some db, err))"

subsection \<open>The backing store\<close>

text \<open>
  Modelled from the spec: the schema is not in dao.go. Section 6 of the spec gives the
  columns: \<open>session_id\<close> (unique key, text), \<open>contents\<close> (text), \<open>last_active\<close> (integer
  seconds) and \<open>expiration\<close> (integer seconds, 0 = never). This is one row of the
  session table, by its SQL column names. The integer columns hold integers; the
  arithmetic of the sweep's \<open>WHERE\<close> clause is the integers'.
\<close>

record srow =
  session_id :: string
  col_contents :: string
  last_active :: int
  col_expiration :: int

text \<open>A bound parameter or a column value, as the driver sees it.\<close>

datatype val = Text string | Integer int

text \<open>
  Whether the store answers. \<open>PrepareFails e\<close>: preparing any statement fails with \<open>e\<close>
  (the error comes back from \<open>QueryRow\<close> and \<open>Exec\<close> themselves). \<open>RunFails e\<close>:
  the statement is prepared and running it fails with \<open>e\<close> (for a query the error is
  held by the row handle and comes back from \<open>Scan\<close>).
\<close>

datatype health = Healthy | PrepareFails error | RunFails error

text \<open>
  Everything outside the access object that the operations read or change: the free list
  behind \<open>dbRowPool\<close>, the rows of the table the object is configured for, whether the
  store answers, and what \<open>time.Now().Unix()\<close> gives.
\<close>

record world =
  dbRowPool :: "DBRow list"
  sessions :: "srow list"
  store_health :: health
  unixNow :: int64

text \<open>The seven statement shapes of \<open>NewDao\<close>.\<close>

datatype stmt =
  SelectBySessionID | SelectCount | UpdateBySessionID | DeleteBySessionID
  | DeleteExpired | InsertRow | RenameSessionID

text \<open>
  The store gives a meaning to the seven statement texts of \<open>NewDao\<close>, for the table name
  it is asked about, and to no other text.
\<close>

definition prepare :: "string \<Rightarrow> string \<Rightarrow> stmt option" where
  "prepare tn query =
     (if query = ''SELECT session_id,contents,last_active,expiration FROM '' @ tn @ '' WHERE session_id=$1''
        then Some SelectBySessionID
      else if query = ''SELECT count(*) as total FROM '' @ tn
        then Some SelectCount
      else if query = ''UPDATE '' @ tn @ '' SET contents=$1,last_active=$2,expiration=$3 WHERE session_id=$4''
        then Some UpdateBySessionID
      else if query = ''DELETE FROM '' @ tn @ '' WHERE session_id=$1''
        then Some DeleteBySessionID
      else if query = ''DELETE FROM '' @ tn @ '' WHERE last_active+expiration<=$1 AND expiration<>0''
        then Some DeleteExpired
      else if query = ''INSERT INTO '' @ tn @ '' (session_id, contents, last_active, expiration) VALUES ($1,$2,$3,$4)''
        then Some InsertRow
      else if query = ''UPDATE '' @ tn @ '' SET session_id=$1,last_active=$2,expiration=$3 WHERE session_id=$4''
        then Some RenameSessionID
      else None)"

text \<open>
  \<open>UPDATE t SET contents=$1,last_active=$2,expiration=$3 WHERE session_id=$4\<close>:
  the affected count and the new rows.
\<close>

fun run_update :: "val list \<Rightarrow> srow list \<Rightarrow> error + (nat \<times> srow list)" where
  "run_update [Text c, Integer la, Integer ex, Text sid] t =
     Inr (length (filter (\<lambda>r. session_id r = sid) t),
          map (\<lambda>r. if session_id r = sid
                    then r\<lparr>col_contents := c, last_active := la, col_expiration := ex\<rparr>
                    else r) t)"
| "run_update _ t = Inl (Failure ''bind'')"

text \<open>\<open>DELETE FROM t WHERE session_id=$1\<close>.\<close>

fun run_delete :: "val list \<Rightarrow> srow list \<Rightarrow> error + (nat \<times> srow list)" where
  "run_delete [Text sid] t =
     Inr (length (filter (\<lambda>r. session_id r = sid) t),
          filter (\<lambda>r. session_id r \<noteq> sid) t)"
| "run_delete _ t = Inl (Failure ''bind'')"

text \<open>\<open>last_active+expiration<=$1 AND expiration<>0\<close>, the sweep's \<open>WHERE\<close> clause.\<close>

definition expired :: "int \<Rightarrow> srow \<Rightarrow> bool" where
  "expired now r = (last_active r + col_expiration r \<le> now \<and> col_expiration r \<noteq> 0)"

text \<open>\<open>DELETE FROM t WHERE last_active+expiration<=$1 AND expiration<>0\<close>.\<close>

fun run_delete_expired :: "val list \<Rightarrow> srow list \<Rightarrow> error + (nat \<times> srow list)" where
  "run_delete_expired [Integer now] t =
     Inr (length (filter (expired now) t), filter (\<lambda>r. \<not> expired now r) t)"
| "run_delete_expired _ t = Inl (Failure ''bind'')"

text \<open>
  \<open>INSERT INTO t (session_id, contents, last_active, expiration) VALUES ($1,$2,$3,$4)\<close>.
  The key is unique: a row whose \<open>session_id\<close> is already there is refused.
\<close>

fun run_insert :: "val list \<Rightarrow> srow list \<Rightarrow> error + (nat \<times> srow list)" where
  "run_insert [Text sid, Text c, Integer la, Integer ex] t =
     (if sid \<in> set (map session_id t) then Inl (Failure ''unique_violation'')
      else Inr (1, t @ [\<lparr>session_id = sid, col_contents = c, last_active = la,
                         col_expiration = ex\<rparr>]))"
| "run_insert _ t = Inl (Failure ''bind'')"

text \<open>
  \<open>UPDATE t SET session_id=$1,last_active=$2,expiration=$3 WHERE session_id=$4\<close>.
  With no row under the old key nothing happens. The key is unique: the statement is
  refused when the new key belongs to another row (or when it would be given to several
  rows at once).
\<close>

fun run_rename :: "val list \<Rightarrow> srow list \<Rightarrow> error + (nat \<times> srow list)" where
  "run_rename [Text new, Integer la, Integer ex, Text old] t =
     (let hit = filter (\<lambda>r. session_id r = old) t;
          others = filter (\<lambda>r. session_id r \<noteq> old) t
      in if hit = [] then Inr (0, t)
         else if new \<in> set (map session_id others) \<or> 1 < length hit
           then Inl (Failure ''unique_violation'')
         else Inr (length hit,
                   map (\<lambda>r. if session_id r = old
                             then r\<lparr>session_id := new, last_active := la, col_expiration := ex\<rparr>
                             else r) t))"
| "run_rename _ t = Inl (Failure ''bind'')"

text \<open>The columns of a row, in the order of the \<open>SELECT\<close> list.\<close>

definition columns :: "srow \<Rightarrow> val list" where
  "columns r = [Text (session_id r), Text (col_contents r), Integer (last_active r),
                Integer (col_expiration r)]"

text \<open>
  \<open>SELECT session_id,contents,last_active,expiration FROM t WHERE session_id=$1\<close>:
  the result rows.
\<close>

fun run_select :: "val list \<Rightarrow> srow list \<Rightarrow> error + val list list" where
  "run_select [Text sid] t = Inr (map columns (filter (\<lambda>r. session_id r = sid) t))"
| "run_select _ t = Inl (Failure ''bind'')"

text \<open>\<open>SELECT count(*) as total FROM t\<close>: one result row, one column.\<close>

fun run_count :: "val list \<Rightarrow> srow list \<Rightarrow> error + val list list" where
  "run_count [] t = Inr [[Integer (int (length t))]]"
| "run_count _ t = Inl (Failure ''bind'')"

text \<open>
  A data-changing statement run on the rows. The access layer runs the two \<open>SELECT\<close>s
  through \<open>QueryRow\<close> only, so they have no meaning here.
\<close>

definition run_exec :: "stmt \<Rightarrow> val list \<Rightarrow> srow list \<Rightarrow> error + (nat \<times> srow list)" where
  "run_exec s args t =
     (case s of
        UpdateBySessionID \<Rightarrow> run_update args t
      | DeleteBySessionID \<Rightarrow> run_delete args t
      | DeleteExpired \<Rightarrow> run_delete_expired args t
      | InsertRow \<Rightarrow> run_insert args t
      | RenameSessionID \<Rightarrow> run_rename args t
      | _ \<Rightarrow> Inl (Failure ''not run through Exec''))"

text \<open>A query run on the rows; only the two \<open>SELECT\<close>s have a meaning here.\<close>

definition run_query :: "stmt \<Rightarrow> val list \<Rightarrow> srow list \<Rightarrow> error + val list list" where
  "run_query s args t =
     (case s of
        SelectBySessionID \<Rightarrow> run_select args t
      | SelectCount \<Rightarrow> run_count args t
      | _ \<Rightarrow> Inl (Failure ''not run through QueryRow''))"

subsection \<open>The query executor facade\<close>

text \<open>
  Modelled from the spec: \<open>Exec\<close> and \<open>QueryRow\<close> are methods of the access object that
  dao.go calls and does not define. Sections 4.2 and 6 of the spec give their contract:
  \<open>execute(stmt, params) -> (rowsAffected int64, err)\<close>, and
  \<open>queryRow(stmt, params) -> (row, err)\<close> where \<open>row.scan(dest) -> err\<close> and a sentinel
  error value denotes "no matching row". The executor is connected (section 6).

  \<open>Exec\<close>: a failure gives count 0 and the error and leaves the rows as they were.
\<close>

definition Exec :: "Dao \<Rightarrow> string \<Rightarrow> val list \<Rightarrow> world \<Rightarrow> (int64 \<times> error option) \<times> world" where
  "Exec db query args w =
     (case store_health w of
        PrepareFails e \<Rightarrow> ((0, Some e), w)
      | RunFails e \<Rightarrow> ((0, Some e), w)
      | Healthy \<Rightarrow>
          (case prepare (tableName db) query of
             None \<Rightarrow> ((0, Some (Failure ''syntax'')), w)
           | Some s \<Rightarrow>
               (case run_exec s args (sessions w) of
                  Inl e \<Rightarrow> ((0, Some e), w)
                | Inr (n, t) \<Rightarrow> ((word_of_nat n, None), w\<lparr>sessions := t\<rparr>))))"

text \<open>
  The row handle of a single-row query (\<open>*sql.Row\<close>): the error the run ended with, the
  sentinel \<open>ErrNoRows\<close> when the result is empty, or the columns of the first result row.
\<close>

type_synonym sqlRow = "error + val list"

text \<open>
  Modelled from the spec: \<open>QueryRow\<close> is the other method dao.go calls and does not
  define (sections 4.2 and 6, as for \<open>Exec\<close>). It returns an error (\<open>Inl\<close>, with a nil
  handle) or a row handle (\<open>Inr\<close>, with a nil error). A query changes nothing.
\<close>

definition QueryRow :: "Dao \<Rightarrow> string \<Rightarrow> val list \<Rightarrow> world \<Rightarrow> error + sqlRow" where
  "QueryRow db query args w =
     (case store_health w of
        PrepareFails e \<Rightarrow> Inl e
      | RunFails e \<Rightarrow> Inr (Inl e)
      | Healthy \<Rightarrow>
          (case prepare (tableName db) query of
             None \<Rightarrow> Inl (Failure ''syntax'')
           | Some s \<Rightarrow>
               (case run_query s args (sessions w) of
                  Inl e \<Rightarrow> Inr (Inl e)
                | Inr [] \<Rightarrow> Inr (Inl ErrNoRows)
                | Inr (cols # _) \<Rightarrow> Inr (Inr cols))))"

text \<open>
  \<open>row.Scan(&data.sessionID, &data.contents, &data.lastActive, &data.expiration)\<close>.
  A handle that holds an error gives it back and writes nothing. Otherwise the columns
  are converted and written one after the other, stopping at the first that does not
  convert: an integer outside \<open>int64\<close>, a column of the wrong kind or a wrong number of
  columns.
\<close>

fun Scan_DBRow :: "sqlRow \<Rightarrow> DBRow \<Rightarrow> DBRow \<times> error option" where
  "Scan_DBRow (Inl e) data = (data, Some e)"
| "Scan_DBRow (Inr [Text a, Text b, Integer c, Integer d]) data =
     (if \<not> fits_int64 c
        then (data\<lparr>sessionID := a, contents := b\<rparr>, Some (Failure ''converting''))
      else if \<not> fits_int64 d
        then (data\<lparr>sessionID := a, contents := b, lastActive := word_of_int c\<rparr>,
              Some (Failure ''converting''))
      else (data\<lparr>sessionID := a, contents := b, lastActive := word_of_int c,
                  expiration := word_of_int d\<rparr>, None))"
| "Scan_DBRow (Inr _) data = (data, Some (Failure ''scan''))"


subsection \<open>The record pool\<close>

text \<open>
  \<open>dbRowPool\<close> is a \<open>sync.Pool\<close> whose \<open>New\<close> allocates a zero \<open>DBRow\<close>. \<open>Get\<close>
  hands out a record that was \<open>Put\<close> before when it has one, and calls \<open>New\<close>
  otherwise; the free list here hands out the record put last.
\<close>

definition acquireDBRow :: "world \<Rightarrow> DBRow \<times> world" where
  "acquireDBRow w =
     (case dbRowPool w of
        [] \<Rightarrow> (new_DBRow, w)
      | row # free \<Rightarrow> (row, w\<lparr>dbRowPool := free\<rparr>))"

text \<open>\<open>Reset\<close> (lines 30 to 34): three assignments.\<close>

definition Reset :: "DBRow \<Rightarrow> DBRow" where
  "Reset row = row\<lparr>sessionID := [], contents := [], lastActive := 0\<rparr>"

text \<open>\<open>releaseDBRow\<close> (lines 24 to 27): \<open>Reset\<close>, then \<open>Put\<close>.\<close>

definition releaseDBRow :: "DBRow \<Rightarrow> world \<Rightarrow> world" where
  "releaseDBRow row w = w\<lparr>dbRowPool := Reset row # dbRowPool w\<rparr>"

subsection \<open>The operations\<close>

text \<open>
  \<open>getSessionBySessionID\<close> (lines 57 to 72). The byte slices are passed on as strings
  (\<open>gotils.B2S\<close>), so identifiers and contents are strings throughout. The result is
  \<open>Inl err\<close> for \<open>return nil, err\<close> and \<open>Inr data\<close> for \<open>return data, nil\<close>.
\<close>

definition getSessionBySessionID :: "Dao \<Rightarrow> string \<Rightarrow> world \<Rightarrow> (error + DBRow) \<times> world" where
  "getSessionBySessionID db sid w =
     (let (data, w1) = acquireDBRow w
      in case QueryRow db (sqlGetSessionBySessionID db) [Text sid] w1 of
           Inl err \<Rightarrow> (Inl err, w1)
         | Inr row \<Rightarrow>
             (let (data1, err) = Scan_DBRow row data
              in if err \<noteq> None \<and> err \<noteq> Some ErrNoRows then (Inl (the err), w1)
                 else (Inr (data1\<lparr>expiration := expiration data1 * Second\<rparr>), w1)))"


text \<open>\<open>updateBySessionID\<close> (lines 91 to 93).\<close>

definition updateBySessionID ::
  "Dao \<Rightarrow> string \<Rightarrow> string \<Rightarrow> int64 \<Rightarrow> int64 \<Rightarrow> world \<Rightarrow> (int64 \<times> error option) \<times> world" where
  "updateBySessionID db sid cont lastActiveTime expir w =
     Exec db (sqlUpdateBySessionID db)
       [Text cont, Integer (sint lastActiveTime), Integer (sint (div_int64 expir Second)), Text sid] w"

text \<open>\<open>deleteBySessionID\<close> (lines 96 to 98).\<close>

definition deleteBySessionID :: "Dao \<Rightarrow> string \<Rightarrow> world \<Rightarrow> (int64 \<times> error option) \<times> world" where
  "deleteBySessionID db sid w = Exec db (sqlDeleteBySessionID db) [Text sid] w"

text \<open>\<open>deleteExpiredSessions\<close> (lines 101 to 103): the clock is read once, for the parameter.\<close>

definition deleteExpiredSessions :: "Dao \<Rightarrow> world \<Rightarrow> (int64 \<times> error option) \<times> world" where
  "deleteExpiredSessions db w = Exec db (sqlDeleteExpiredSessions db) [Integer (sint (unixNow w))] w"

text \<open>\<open>insert\<close> (lines 106 to 108).\<close>

definition insert_session ::
  "Dao \<Rightarrow> string \<Rightarrow> string \<Rightarrow> int64 \<Rightarrow> int64 \<Rightarrow> world \<Rightarrow> (int64 \<times> error option) \<times> world" where
  "insert_session db sid cont lastActiveTime expir w =
     Exec db (sqlInsert db)
       [Text sid, Text cont, Integer (sint lastActiveTime), Integer (sint (div_int64 expir Second))] w"

text \<open>\<open>regenerate\<close> (lines 111 to 113).\<close>

definition regenerate ::
  "Dao \<Rightarrow> string \<Rightarrow> string \<Rightarrow> int64 \<Rightarrow> int64 \<Rightarrow> world \<Rightarrow> (int64 \<times> error option) \<times> world" where
  "regenerate db oldID newID lastActiveTime expir w =
     Exec db (sqlRegenerate db)
       [Text newID, Integer (sint lastActiveTime), Integer (sint (div_int64 expir Second)), Text oldID] w"

subsection \<open>A sample configuration\<close>

text \<open>
  An access object built for the table \<open>session\<close> over an \<open>sql.Open\<close> that succeeds, and
  a store with three rows: one that never expires and was last active long ago, the row of
  the scenario of section 8 of the spec, and one that is still inside its window at
  \<open>unixNow = 2000\<close>.
\<close>

definition sample_open :: "string \<Rightarrow> string \<Rightarrow> sqlDB option \<times> error option" where
  "sample_open driver dsn = (Some (DB driver dsn), None)"

definition sample_dao :: Dao where
  "sample_dao =
     \<lparr>Driver = ''postgres'', Dsn = ''dsn'', Connection = Some (DB ''postgres'' ''dsn''),
      tableName = ''session'',
      sqlGetSessionBySessionID =
        ''SELECT session_id,contents,last_active,expiration FROM session WHERE session_id=$1'',
      sqlCountSessions = ''SELECT count(*) as total FROM session'',
      sqlUpdateBySessionID =
        ''UPDATE session SET contents=$1,last_active=$2,expiration=$3 WHERE session_id=$4'',
      sqlDeleteBySessionID = ''DELETE FROM session WHERE session_id=$1'',
      sqlDeleteExpiredSessions =
        ''DELETE FROM session WHERE last_active+expiration<=$1 AND expiration<>0'',
      sqlInsert =
        ''INSERT INTO session (session_id, contents, last_active, expiration) VALUES ($1,$2,$3,$4)'',
      sqlRegenerate =
        ''UPDATE session SET session_id=$1,last_active=$2,expiration=$3 WHERE session_id=$4''\<rparr>"

definition forever_row :: srow where
  "forever_row = \<lparr>session_id = ''s0'', col_contents = ''k'', last_active = 1, col_expiration = 0\<rparr>"

definition scenario_row :: srow where
  "scenario_row = \<lparr>session_id = ''s1'', col_contents = ''a'', last_active = 1000, col_expiration = 30\<rparr>"

definition recent_row :: srow where
  "recent_row = \<lparr>session_id = ''s2'', col_contents = ''x'', last_active = 1990, col_expiration = 30\<rparr>"

definition sample_world :: world where
  "sample_world = \<lparr>dbRowPool = [], sessions = [forever_row, scenario_row, recent_row],
                     store_health = Healthy, unixNow = 2000\<rparr>"

section \<open>Properties\<close>

subsection \<open>The statement texts and their meaning\<close>

text \<open>Each of the seven texts built for a table name is read back as its own statement.\<close>

lemma prepare_select:
  "prepare tn (''SELECT session_id,contents,last_active,expiration FROM '' @ tn @ '' WHERE session_id=$1'') = Some SelectBySessionID"
  by (simp add: prepare_def)

lemma prepare_count:
  "prepare tn (''SELECT count(*) as total FROM '' @ tn) = Some SelectCount"
  by (simp add: prepare_def)

lemma prepare_update:
  "prepare tn (''UPDATE '' @ tn @ '' SET contents=$1,last_active=$2,expiration=$3 WHERE session_id=$4'') = Some UpdateBySessionID"
  by (simp add: prepare_def)

lemma prepare_delete:
  "prepare tn (''DELETE FROM '' @ tn @ '' WHERE session_id=$1'') = Some DeleteBySessionID"
  by (simp add: prepare_def)

lemma prepare_delete_expired:
  "prepare tn (''DELETE FROM '' @ tn @ '' WHERE last_active+expiration<=$1 AND expiration<>0'') = Some DeleteExpired"
  by (simp add: prepare_def)

lemma prepare_insert:
  "prepare tn (''INSERT INTO '' @ tn @ '' (session_id, contents, last_active, expiration) VALUES ($1,$2,$3,$4)'') = Some InsertRow"
  by (simp add: prepare_def)

lemma prepare_rename:
  "prepare tn (''UPDATE '' @ tn @ '' SET session_id=$1,last_active=$2,expiration=$3 WHERE session_id=$4'') = Some RenameSessionID"
  by (simp add: prepare_def)

text \<open>The fields of an object that \<open>NewDao\<close> returned, and how the store reads its texts.\<close>

lemma NewDao_fields:
  assumes "fst (NewDao sqlOpen driver dsn tn) = Some db"
  shows "tableName db = tn"
    and "sqlGetSessionBySessionID db = ''SELECT session_id,contents,last_active,expiration FROM '' @ tn @ '' WHERE session_id=$1''"
    and "sqlCountSessions db = ''SELECT count(*) as total FROM '' @ tn"
    and "sqlUpdateBySessionID db = ''UPDATE '' @ tn @ '' SET contents=$1,last_active=$2,expiration=$3 WHERE session_id=$4''"
    and "sqlDeleteBySessionID db = ''DELETE FROM '' @ tn @ '' WHERE session_id=$1''"
    and "sqlDeleteExpiredSessions db = ''DELETE FROM '' @ tn @ '' WHERE last_active+expiration<=$1 AND expiration<>0''"
    and "sqlInsert db = ''INSERT INTO '' @ tn @ '' (session_id, contents, last_active, expiration) VALUES ($1,$2,$3,$4)''"
    and "sqlRegenerate db = ''UPDATE '' @ tn @ '' SET session_id=$1,last_active=$2,expiration=$3 WHERE session_id=$4''"
  using assms by (auto simp: NewDao_def Let_def split: prod.splits)

lemma prepare_built:
  assumes "fst (NewDao sqlOpen driver dsn tn) = Some db"
  shows "prepare (tableName db) (sqlGetSessionBySessionID db) = Some SelectBySessionID"
    and "prepare (tableName db) (sqlCountSessions db) = Some SelectCount"
    and "prepare (tableName db) (sqlUpdateBySessionID db) = Some UpdateBySessionID"
    and "prepare (tableName db) (sqlDeleteBySessionID db) = Some DeleteBySessionID"
    and "prepare (tableName db) (sqlDeleteExpiredSessions db) = Some DeleteExpired"
    and "prepare (tableName db) (sqlInsert db) = Some InsertRow"
    and "prepare (tableName db) (sqlRegenerate db) = Some RenameSessionID"
  by (simp_all only: NewDao_fields [OF assms] prepare_select prepare_count prepare_update
        prepare_delete prepare_delete_expired prepare_insert prepare_rename)

text \<open>The sample object is the one \<open>NewDao\<close> builds for the table \<open>session\<close>.\<close>

lemma sample_dao_built:
  "fst (NewDao sample_open ''postgres'' ''dsn'' ''session'') = Some sample_dao"
  by (simp add: NewDao_def sample_open_def sample_dao_def)

lemmas sample_defs = forever_row_def scenario_row_def recent_row_def sample_world_def

lemmas store_defs = Exec_def QueryRow_def prepare_def run_exec_def run_query_def columns_def
  acquireDBRow_def releaseDBRow_def Reset_def new_DBRow_def sample_dao_def
  fits_int64_def Second_def div_int64_def

subsection \<open>Conversions between \<open>int64\<close> and the integers\<close>

lemma sint_word_of_int_fits:
  "fits_int64 k \<Longrightarrow> sint (word_of_int k :: int64) = k"
  by (simp add: fits_int64_def signed_of_int signed_take_bit_int_eq_self)

lemma fits_int64_sint: "fits_int64 (sint (w :: int64))"
  using sint_ge [of w] sint_lt [of w] by (simp add: fits_int64_def)

lemma sint_Second: "sint Second = 1000000000"
  by (simp add: Second_def)

lemma sdiv_truncates:
  fixes a :: int
  defines "q \<equiv> a sdiv 1000000000"
  shows "0 \<le> q * a" and "\<bar>q\<bar> * 1000000000 \<le> \<bar>a\<bar>" and "\<bar>a\<bar> < (\<bar>q\<bar> + 1) * 1000000000"
proof -
  have q: "q = sgn a * (\<bar>a\<bar> div 1000000000)"
    by (simp add: q_def signed_divide_int_def)
  have nn: "0 \<le> \<bar>a\<bar> div 1000000000" by simp
  have absq: "\<bar>q\<bar> = \<bar>a\<bar> div 1000000000"
    using nn by (cases "a = 0") (simp_all add: q abs_mult)
  have m: "\<bar>a\<bar> mod 1000000000 < 1000000000" by simp
  have d: "\<bar>a\<bar> = \<bar>a\<bar> div 1000000000 * 1000000000 + \<bar>a\<bar> mod 1000000000" by simp
  show "0 \<le> q * a"
    using nn by (cases a "0::int" rule: linorder_cases) (simp_all add: q mult_nonneg_nonpos)
  show "\<bar>q\<bar> * 1000000000 \<le> \<bar>a\<bar>"
    unfolding absq by simp
  show "\<bar>a\<bar> < (\<bar>q\<bar> + 1) * 1000000000"
    unfolding absq using m d by (simp add: algebra_simps)
qed

lemma fits_int64_sdiv:
  assumes "fits_int64 a"
  shows "fits_int64 (a sdiv 1000000000)"
proof -
  have "\<bar>a sdiv 1000000000\<bar> * 1000000000 \<le> \<bar>a\<bar>" by (rule sdiv_truncates)
  moreover have "\<bar>a\<bar> \<le> 2 ^ 63" using assms by (auto simp: fits_int64_def)
  ultimately have "\<bar>a sdiv 1000000000\<bar> < 2 ^ 63" by simp
  then show ?thesis by (auto simp: fits_int64_def)
qed

lemma sint_div_int64_Second:
  "sint (div_int64 ex Second) = sint ex sdiv 1000000000"
  by (simp add: div_int64_def sint_Second sint_word_of_int_fits fits_int64_sdiv fits_int64_sint)

lemma whole_seconds_sdiv: "(k * 1000000000) sdiv 1000000000 = (k::int)"
  by (cases k "0::int" rule: linorder_cases) (simp_all add: signed_divide_int_def abs_mult sgn_mult)

subsection \<open>What the facade and the pool leave alone\<close>

lemma Exec_Healthy:
  assumes "store_health w = Healthy" and "prepare (tableName db) query = Some s"
  shows "Exec db query args w =
           (case run_exec s args (sessions w) of
              Inl e \<Rightarrow> ((0, Some e), w)
            | Inr (n, t) \<Rightarrow> ((word_of_nat n, None), w\<lparr>sessions := t\<rparr>))"
  using assms by (simp add: Exec_def)

lemma Exec_unhealthy:
  "store_health w \<noteq> Healthy \<Longrightarrow> \<exists>e. Exec db query args w = ((0, Some e), w)"
  by (cases "store_health w") (simp_all add: Exec_def)

lemma Exec_frame:
  "dbRowPool (snd (Exec db query args w)) = dbRowPool w \<and>
   store_health (snd (Exec db query args w)) = store_health w \<and>
   unixNow (snd (Exec db query args w)) = unixNow w"
  by (auto simp: Exec_def split: health.splits option.splits sum.splits prod.splits)

lemma Exec_error_keeps_rows:
  "snd (fst (Exec db query args w)) \<noteq> None \<Longrightarrow> snd (Exec db query args w) = w"
  by (auto simp: Exec_def split: health.splits option.splits sum.splits prod.splits)

lemma Exec_ok_Healthy:
  "snd (fst (Exec db query args w)) = None \<Longrightarrow> store_health w = Healthy"
  by (auto simp: Exec_def split: health.splits option.splits sum.splits prod.splits)

lemma acquireDBRow_frame:
  "sessions (snd (acquireDBRow w)) = sessions w \<and>
   store_health (snd (acquireDBRow w)) = store_health w \<and>
   unixNow (snd (acquireDBRow w)) = unixNow w \<and>
   snd (acquireDBRow w) = w\<lparr>dbRowPool := tl (dbRowPool w)\<rparr>"
  by (cases "dbRowPool w") (simp_all add: acquireDBRow_def)

lemma QueryRow_select_Healthy:
  assumes built: "fst (NewDao sqlOpen driver dsn tn) = Some db"
    and up: "store_health w = Healthy"
  shows "QueryRow db (sqlGetSessionBySessionID db) [Text sid] w =
           (case filter (\<lambda>r. session_id r = sid) (sessions w) of
              [] \<Rightarrow> Inr (Inl ErrNoRows)
            | r # _ \<Rightarrow> Inr (Inr (columns r)))"
  using up
  by (simp add: QueryRow_def prepare_built [OF built] run_query_def split: list.splits)


lemma QueryRow_unhealthy:
  "store_health w = PrepareFails e \<Longrightarrow> QueryRow db query args w = Inl e"
  "store_health w = RunFails e \<Longrightarrow> QueryRow db query args w = Inr (Inl e)"
  by (simp_all add: QueryRow_def)

lemma map_id_on_filter_empty:
  "filter P xs = [] \<Longrightarrow> map (\<lambda>r. if P r then f r else r) xs = xs"
  by (induction xs) (auto split: if_splits)

lemma filter_key_distinct:
  "distinct (map f xs) \<Longrightarrow> k \<in> set (map f xs) \<Longrightarrow> length (filter (\<lambda>r. f r = k) xs) = 1"
proof (induction xs)
  case Nil
  then show ?case by simp
next
  case (Cons x xs)
  show ?case
  proof (cases "f x = k")
    case True
    with Cons.prems have "k \<notin> f ` set xs" by auto
    then have "filter (\<lambda>r. f r = k) xs = []" by (auto simp: filter_empty_conv)
    with True show ?thesis by simp
  next
    case False
    with Cons show ?thesis by auto
  qed
qed

subsection \<open>Construction\<close>

text \<open>
  C10: \<open>NewDao\<close> always returns a non-nil access object in which the seven statement
  texts are built with the table name substituted, whatever \<open>sql.Open\<close> returned; the
  error of \<open>sql.Open\<close> (nil or not) is returned beside the object.
\<close>

theorem NewDao_always_builds:
  "\<exists>db. NewDao sqlOpen driver dsn tn = (Some db, snd (sqlOpen driver dsn)) \<and>
     Driver db = driver \<and> Dsn db = dsn \<and> Connection db = fst (sqlOpen driver dsn) \<and>
     tableName db = tn \<and>
     sqlGetSessionBySessionID db =
       ''SELECT session_id,contents,last_active,expiration FROM '' @ tn @ '' WHERE session_id=$1'' \<and>
     sqlCountSessions db = ''SELECT count(*) as total FROM '' @ tn \<and>
     sqlUpdateBySessionID db =
       ''UPDATE '' @ tn @ '' SET contents=$1,last_active=$2,expiration=$3 WHERE session_id=$4'' \<and>
     sqlDeleteBySessionID db = ''DELETE FROM '' @ tn @ '' WHERE session_id=$1'' \<and>
     sqlDeleteExpiredSessions db =
       ''DELETE FROM '' @ tn @ '' WHERE last_active+expiration<=$1 AND expiration<>0'' \<and>
     sqlInsert db =
       ''INSERT INTO '' @ tn @ '' (session_id, contents, last_active, expiration) VALUES ($1,$2,$3,$4)'' \<and>
     sqlRegenerate db =
       ''UPDATE '' @ tn @ '' SET session_id=$1,last_active=$2,expiration=$3 WHERE session_id=$4''"
  by (cases "sqlOpen driver dsn") (simp add: NewDao_def)

text \<open>The same at a failing open: the object is there, fully built, beside the error.\<close>

lemma NewDao_failed_open_example:
  "NewDao (\<lambda>d s. (None, Some (Failure ''sql: unknown driver''))) ''nodriver'' ''dsn'' ''t'' =
     (Some \<lparr>Driver = ''nodriver'', Dsn = ''dsn'', Connection = None, tableName = ''t'',
            sqlGetSessionBySessionID =
              ''SELECT session_id,contents,last_active,expiration FROM t WHERE session_id=$1'',
            sqlCountSessions = ''SELECT count(*) as total FROM t'',
            sqlUpdateBySessionID =
              ''UPDATE t SET contents=$1,last_active=$2,expiration=$3 WHERE session_id=$4'',
            sqlDeleteBySessionID = ''DELETE FROM t WHERE session_id=$1'',
            sqlDeleteExpiredSessions =
              ''DELETE FROM t WHERE last_active+expiration<=$1 AND expiration<>0'',
            sqlInsert =
              ''INSERT INTO t (session_id, contents, last_active, expiration) VALUES ($1,$2,$3,$4)'',
            sqlRegenerate =
              ''UPDATE t SET session_id=$1,last_active=$2,expiration=$3 WHERE session_id=$4''\<rparr>,
      Some (Failure ''sql: unknown driver''))"
  by (simp add: NewDao_def)

subsection \<open>The record pool\<close>

text \<open>What \<open>Reset\<close> leaves behind: three zero fields and the expiration it found.\<close>

lemma Reset_fields:
  "Reset row = \<lparr>sessionID = [], contents = [], lastActive = 0, expiration = expiration row\<rparr>"
  by (simp add: Reset_def)

text \<open>
  C5: releasing a record is claimed to clear every field, the expiration too. \<open>Reset\<close>
  assigns three fields and leaves \<open>expiration\<close>: a record released with an expiration of
  30 seconds still carries it, and the next \<open>acquireDBRow\<close> hands it out.
\<close>

theorem Reset_leaves_expiration:
  "Reset \<lparr>sessionID = ''s1'', contents = ''a'', lastActive = 1000, expiration = 30000000000\<rparr>
     = \<lparr>sessionID = [], contents = [], lastActive = 0, expiration = 30000000000\<rparr> \<and>
   fst (acquireDBRow (releaseDBRow
          \<lparr>sessionID = ''s1'', contents = ''a'', lastActive = 1000, expiration = 30000000000\<rparr>
          \<lparr>dbRowPool = [], sessions = [], store_health = Healthy, unixNow = 0\<rparr>))
     = \<lparr>sessionID = [], contents = [], lastActive = 0, expiration = 30000000000\<rparr> \<and>
   (30000000000 :: int64) \<noteq> 0"
  by (simp add: Reset_def acquireDBRow_def releaseDBRow_def)

subsection \<open>Fetching a session\<close>

text \<open>How \<open>getSessionBySessionID\<close> returns when a row is found.\<close>

lemma getSessionBySessionID_found:
  assumes built: "fst (NewDao sqlOpen driver dsn tn) = Some db"
    and up: "store_health w = Healthy"
    and hit: "filter (\<lambda>r. session_id r = sid) (sessions w) = r # rs"
    and fits: "fits_int64 (last_active r)" "fits_int64 (col_expiration r)"
  shows "getSessionBySessionID db sid w =
           (Inr \<lparr>sessionID = session_id r, contents = col_contents r,
                 lastActive = word_of_int (last_active r),
                 expiration = word_of_int (col_expiration r) * Second\<rparr>,
            w\<lparr>dbRowPool := tl (dbRowPool w)\<rparr>)"
proof -
  obtain data w1 where a: "acquireDBRow w = (data, w1)" by (cases "acquireDBRow w")
  then have w1: "w1 = w\<lparr>dbRowPool := tl (dbRowPool w)\<rparr>"
    using acquireDBRow_frame [of w] by simp
  have q: "QueryRow db (sqlGetSessionBySessionID db) [Text sid] w1 = Inr (Inr (columns r))"
    using QueryRow_select_Healthy [OF built, of w1 sid] up hit by (simp add: w1)
  show ?thesis
    using fits by (simp add: getSessionBySessionID_def a q columns_def) (simp add: w1)
qed

text \<open>
  Failures other than "no rows" come back as the error, with no record: a failure to
  prepare comes back from \<open>QueryRow\<close>, a failure of the run comes back from \<open>Scan\<close>.
\<close>

lemma getSessionBySessionID_propagates:
  "store_health w = PrepareFails e \<Longrightarrow> fst (getSessionBySessionID db sid w) = Inl e"
  "store_health w = RunFails e \<Longrightarrow> e \<noteq> ErrNoRows \<Longrightarrow> fst (getSessionBySessionID db sid w) = Inl e"
  using acquireDBRow_frame [of w]
  by (auto simp: getSessionBySessionID_def QueryRow_unhealthy split: prod.splits)

text \<open>
  With no row under the identifier, \<open>Scan\<close> reports \<open>ErrNoRows\<close> and writes nothing: the
  record returned is the acquired one, its expiration multiplied by \<open>time.Second\<close>.
  A freshly allocated record comes back with every field zero.
\<close>

lemma getSessionBySessionID_no_rows:
  assumes built: "fst (NewDao sqlOpen driver dsn tn) = Some db"
    and up: "store_health w = Healthy"
    and absent: "sid \<notin> set (map session_id (sessions w))"
  shows "getSessionBySessionID db sid w =
           (Inr ((fst (acquireDBRow w))\<lparr>expiration := expiration (fst (acquireDBRow w)) * Second\<rparr>),
            w\<lparr>dbRowPool := tl (dbRowPool w)\<rparr>)"
proof -
  obtain data w1 where a: "acquireDBRow w = (data, w1)" by (cases "acquireDBRow w")
  then have w1: "w1 = w\<lparr>dbRowPool := tl (dbRowPool w)\<rparr>"
    using acquireDBRow_frame [of w] by simp
  have "filter (\<lambda>r. session_id r = sid) (sessions w1) = []"
    using absent by (auto simp: w1 filter_empty_conv)
  then have q: "QueryRow db (sqlGetSessionBySessionID db) [Text sid] w1 = Inr (Inl ErrNoRows)"
    using QueryRow_select_Healthy [OF built, of w1 sid] up by (simp add: w1)
  show ?thesis
    by (simp add: getSessionBySessionID_def a q) (simp add: w1)
qed

lemma getSessionBySessionID_no_rows_fresh:
  assumes built: "fst (NewDao sqlOpen driver dsn tn) = Some db"
    and up: "store_health w = Healthy"
    and absent: "sid \<notin> set (map session_id (sessions w))"
    and empty: "dbRowPool w = []"
  shows "fst (getSessionBySessionID db sid w) =
           Inr \<lparr>sessionID = [], contents = [], lastActive = 0, expiration = 0\<rparr>"
  using empty
  by (simp add: getSessionBySessionID_no_rows [OF built up absent] acquireDBRow_def new_DBRow_def)

text \<open>
  C2: on "no rows" the operation is claimed to return a record with all fields in their
  zero state. The record it returns is the pooled one, and \<open>Reset\<close> left the previous
  expiration in it: after a found session with an expiration of 30 seconds is fetched and
  released, fetching an absent identifier returns no error and a record whose identifier
  and contents are empty and whose expiration is 30000000000 * 1000000000 wrapped to 64
  bits, which is not zero.
\<close>

theorem no_rows_returns_stale_expiration:
  "getSessionBySessionID sample_dao ''s1''
     \<lparr>dbRowPool = [],
      sessions = [\<lparr>session_id = ''s1'', col_contents = ''a'', last_active = 1000, col_expiration = 30\<rparr>],
      store_health = Healthy, unixNow = 1000\<rparr>
   = (Inr \<lparr>sessionID = ''s1'', contents = ''a'', lastActive = 1000, expiration = 30000000000\<rparr>,
      \<lparr>dbRowPool = [],
       sessions = [\<lparr>session_id = ''s1'', col_contents = ''a'', last_active = 1000, col_expiration = 30\<rparr>],
       store_health = Healthy, unixNow = 1000\<rparr>) \<and>
   getSessionBySessionID sample_dao ''gone''
     (releaseDBRow \<lparr>sessionID = ''s1'', contents = ''a'', lastActive = 1000, expiration = 30000000000\<rparr>
        \<lparr>dbRowPool = [],
         sessions = [\<lparr>session_id = ''s1'', col_contents = ''a'', last_active = 1000, col_expiration = 30\<rparr>],
         store_health = Healthy, unixNow = 1000\<rparr>)
   = (Inr \<lparr>sessionID = [], contents = [], lastActive = 0, expiration = 11553255926290448384\<rparr>,
      \<lparr>dbRowPool = [],
       sessions = [\<lparr>session_id = ''s1'', col_contents = ''a'', last_active = 1000, col_expiration = 30\<rparr>],
       store_health = Healthy, unixNow = 1000\<rparr>) \<and>
   (11553255926290448384 :: int64) \<noteq> 0"
  by (simp add: getSessionBySessionID_def store_defs)

text \<open>
  C6: the record acquired at the start of the fetch is claimed to be reset and returned to
  the pool on every return path, the error returns included. The error returns
  (\<open>return nil, err\<close>, lines 61 to 63 and 66 to 68) do neither: \<open>releaseDBRow\<close> is not
  called, and the caller gets no record to release. With one record in the pool and a
  store whose run of the query fails, \<open>Scan\<close> gives the error back, the fetch returns it
  with no record, and the pool is left empty.
\<close>

theorem fetch_error_drops_acquired_record:
  "getSessionBySessionID sample_dao ''s1''
     \<lparr>dbRowPool = [new_DBRow],
      sessions = [\<lparr>session_id = ''s1'', col_contents = ''a'', last_active = 1000, col_expiration = 30\<rparr>],
      store_health = RunFails (Failure ''connection reset''), unixNow = 1000\<rparr>
   = (Inl (Failure ''connection reset''),
      \<lparr>dbRowPool = [],
       sessions = [\<lparr>session_id = ''s1'', col_contents = ''a'', last_active = 1000, col_expiration = 30\<rparr>],
       store_health = RunFails (Failure ''connection reset''), unixNow = 1000\<rparr>)"
  by (simp add: getSessionBySessionID_def store_defs)

subsection \<open>Counting\<close>



subsection \<open>Whole seconds on the store path\<close>

text \<open>
  C7: the expiration that \<open>insert\<close> and \<open>updateBySessionID\<close> bind is the duration
  divided by one second with the quotient truncated towards zero: it has the sign of the
  duration (or is zero), and the part of the duration it leaves out is less than one second.
\<close>

theorem expiration_bound_in_whole_seconds:
  "\<exists>q. insert_session db sid cont la ex w =
          Exec db (sqlInsert db) [Text sid, Text cont, Integer (sint la), Integer q] w \<and>
        updateBySessionID db sid cont la ex w =
          Exec db (sqlUpdateBySessionID db) [Text cont, Integer (sint la), Integer q, Text sid] w \<and>
        q = sint ex sdiv 1000000000 \<and>
        0 \<le> q * sint ex \<and>
        \<bar>q\<bar> * 1000000000 \<le> \<bar>sint ex\<bar> \<and>
        \<bar>sint ex\<bar> < (\<bar>q\<bar> + 1) * 1000000000"
  using sdiv_truncates [of "sint ex"]
  by (simp add: insert_session_def updateBySessionID_def sint_div_int64_Second)

text \<open>The boundary cases: 1.9 s is bound as 1, -1.9 s as -1, and 0.999999999 s as 0.\<close>

lemma truncation_examples:
  "sint (div_int64 1900000000 Second) = 1"
  "sint (div_int64 (- 1900000000) Second) = - 1"
  "sint (div_int64 999999999 Second) = 0"
  by (simp_all add: sint_div_int64_Second signed_divide_int_def)

subsection \<open>Updating in place\<close>

lemma updateBySessionID_Healthy:
  assumes built: "fst (NewDao sqlOpen driver dsn tn) = Some db"
    and up: "store_health w = Healthy"
  shows "updateBySessionID db sid cont la ex w =
           ((word_of_nat (length (filter (\<lambda>r. session_id r = sid) (sessions w))), None),
            w\<lparr>sessions :=
                 map (\<lambda>r. if session_id r = sid
                           then r\<lparr>col_contents := cont, last_active := sint la,
                                  col_expiration := sint ex sdiv 1000000000\<rparr>
                           else r) (sessions w)\<rparr>)"
  using up
  by (simp add: updateBySessionID_def Exec_Healthy [OF up prepare_built(3) [OF built]]
        run_exec_def sint_div_int64_Second)

text \<open>
  C9: \<open>updateBySessionID\<close> leaves the identifier of every row as it was, leaves every
  row under another identifier entirely unchanged, and touches nothing but the rows of the
  table. When the store runs the statement, the rows under the identifier get the new
  contents, lastActive and expiration (in whole seconds) and the count of those rows is
  reported with no error; with no row under the identifier that is zero rows, no error and
  nothing changed.
\<close>

theorem updateBySessionID_frame:
  assumes built: "fst (NewDao sqlOpen driver dsn tn) = Some db"
  shows "map session_id (sessions (snd (updateBySessionID db sid cont la ex w)))
           = map session_id (sessions w) \<and>
         filter (\<lambda>r. session_id r \<noteq> sid) (sessions (snd (updateBySessionID db sid cont la ex w)))
           = filter (\<lambda>r. session_id r \<noteq> sid) (sessions w) \<and>
         snd (updateBySessionID db sid cont la ex w)
           = w\<lparr>sessions := sessions (snd (updateBySessionID db sid cont la ex w))\<rparr> \<and>
         (store_health w = Healthy \<longrightarrow>
            updateBySessionID db sid cont la ex w =
              ((word_of_nat (length (filter (\<lambda>r. session_id r = sid) (sessions w))), None),
               w\<lparr>sessions :=
                    map (\<lambda>r. if session_id r = sid
                              then r\<lparr>col_contents := cont, last_active := sint la,
                                     col_expiration := sint ex sdiv 1000000000\<rparr>
                              else r) (sessions w)\<rparr>)) \<and>
         (store_health w = Healthy \<and> sid \<notin> set (map session_id (sessions w)) \<longrightarrow>
            updateBySessionID db sid cont la ex w = ((0, None), w))"
proof (cases "store_health w = Healthy")
  case True
  note eq = updateBySessionID_Healthy [OF built True, of sid cont la ex]
  have f: "filter (\<lambda>r. session_id r \<noteq> sid)
             (map (\<lambda>r. if session_id r = sid
                       then r\<lparr>col_contents := c, last_active := a, col_expiration := x\<rparr>
                       else r) t)
           = filter (\<lambda>r. session_id r \<noteq> sid) t" for c a x and t :: "srow list"
    by (induction t) auto
  have none: "filter (\<lambda>r. session_id r = sid) (sessions w) = []"
    if "sid \<notin> set (map session_id (sessions w))"
    using that by (auto simp: filter_empty_conv)
  show ?thesis
    using True
    by (auto simp: eq f none map_id_on_filter_empty o_def cong: map_cong)
next
  case False
  then obtain e where "updateBySessionID db sid cont la ex w = ((0, Some e), w)"
    using Exec_unhealthy [of w db] unfolding updateBySessionID_def by blast
  then show ?thesis using False by simp
qed

theorem updateBySessionID_frame_witness:
  "updateBySessionID sample_dao ''s1'' ''b'' 1100 60000000000 sample_world
     = ((1, None),
        sample_world\<lparr>sessions := [forever_row,
          \<lparr>session_id = ''s1'', col_contents = ''b'', last_active = 1100, col_expiration = 60\<rparr>,
          recent_row]\<rparr>) \<and>
   updateBySessionID sample_dao ''gone'' ''b'' 1100 60000000000 sample_world
     = ((0, None), sample_world)"
  using updateBySessionID_frame [OF sample_dao_built, of "''s1''" "''b''" 1100 60000000000 sample_world]
    updateBySessionID_frame [OF sample_dao_built, of "''gone''" "''b''" 1100 60000000000 sample_world]
  by (simp add: sample_defs)

subsection \<open>The expiration sweep\<close>

text \<open>
  C3: when the store runs the statement, \<open>deleteExpiredSessions\<close> deletes exactly the
  rows with \<open>last_active + expiration <= now\<close> and \<open>expiration <> 0\<close>, for the one
  \<open>now\<close> the call reads from the clock, and reports their number; the rows whose
  expiration is zero are all still there afterwards, however old their lastActive.
\<close>

theorem deleteExpiredSessions_sweep:
  assumes built: "fst (NewDao sqlOpen driver dsn tn) = Some db"
    and up: "store_health w = Healthy"
  shows "deleteExpiredSessions db w =
           ((word_of_nat (length (filter (\<lambda>r. last_active r + col_expiration r \<le> sint (unixNow w)
                                              \<and> col_expiration r \<noteq> 0) (sessions w))), None),
            w\<lparr>sessions := filter (\<lambda>r. \<not> (last_active r + col_expiration r \<le> sint (unixNow w)
                                              \<and> col_expiration r \<noteq> 0)) (sessions w)\<rparr>) \<and>
         filter (\<lambda>r. col_expiration r = 0) (sessions (snd (deleteExpiredSessions db w)))
           = filter (\<lambda>r. col_expiration r = 0) (sessions w)"
proof -
  have eq: "deleteExpiredSessions db w =
           ((word_of_nat (length (filter (\<lambda>r. last_active r + col_expiration r \<le> sint (unixNow w)
                                              \<and> col_expiration r \<noteq> 0) (sessions w))), None),
            w\<lparr>sessions := filter (\<lambda>r. \<not> (last_active r + col_expiration r \<le> sint (unixNow w)
                                              \<and> col_expiration r \<noteq> 0)) (sessions w)\<rparr>)"
    using up
    by (simp add: deleteExpiredSessions_def Exec_Healthy [OF up prepare_built(5) [OF built]]
          run_exec_def expired_def [abs_def])
  have "filter (\<lambda>r. col_expiration r = 0)
          (filter (\<lambda>r. \<not> (last_active r + col_expiration r \<le> now \<and> col_expiration r \<noteq> 0)) t)
        = filter (\<lambda>r. col_expiration r = 0) t" for now and t :: "srow list"
    by (induction t) auto
  then show ?thesis by (simp add: eq)
qed

theorem deleteExpiredSessions_sweep_witness:
  "deleteExpiredSessions sample_dao
     sample_world
   = ((1, None),
      (sample_world\<lparr>sessions := [forever_row, recent_row]\<rparr>))"
proof -
  have up: "store_health sample_world = Healthy" by (simp add: sample_defs)
  show ?thesis
    using deleteExpiredSessions_sweep [OF sample_dao_built up] by (simp add: sample_defs)
qed

subsection \<open>Rotating the identifier\<close>

lemma regenerate_Healthy:
  assumes built: "fst (NewDao sqlOpen driver dsn tn) = Some db"
    and up: "store_health w = Healthy"
  shows "regenerate db oldID newID la ex w =
           (case run_rename [Text newID, Integer (sint la), Integer (sint ex sdiv 1000000000),
                             Text oldID] (sessions w) of
              Inl e \<Rightarrow> ((0, Some e), w)
            | Inr (n, t) \<Rightarrow> ((word_of_nat n, None), w\<lparr>sessions := t\<rparr>))"
  by (simp add: regenerate_def Exec_Healthy [OF up prepare_built(7) [OF built]]
        run_exec_def sint_div_int64_Second)

text \<open>
  C4: \<open>regenerate\<close> never changes the number of rows, and touches nothing but the rows of
  the table. Whenever it returns without error, the rows under the old identifier are now
  under the new one with lastActive and expiration (in whole seconds) refreshed and the
  contents as they were, every other row is unchanged, and the count reported is the
  number of rows that were under the old identifier. With no row under the old identifier
  that is zero rows and nothing changed; with one row under it, in a table of unique
  identifiers where the new identifier belongs to no other row, it is one row.
\<close>

theorem regenerate_renames_in_place:
  assumes built: "fst (NewDao sqlOpen driver dsn tn) = Some db"
  shows "length (sessions (snd (regenerate db oldID newID la ex w))) = length (sessions w) \<and>
         snd (regenerate db oldID newID la ex w)
           = w\<lparr>sessions := sessions (snd (regenerate db oldID newID la ex w))\<rparr> \<and>
         (snd (fst (regenerate db oldID newID la ex w)) = None \<longrightarrow>
            sessions (snd (regenerate db oldID newID la ex w))
              = map (\<lambda>r. if session_id r = oldID
                          then r\<lparr>session_id := newID, last_active := sint la,
                                 col_expiration := sint ex sdiv 1000000000\<rparr>
                          else r) (sessions w) \<and>
            fst (fst (regenerate db oldID newID la ex w))
              = word_of_nat (length (filter (\<lambda>r. session_id r = oldID) (sessions w)))) \<and>
         (store_health w = Healthy \<and> oldID \<notin> set (map session_id (sessions w)) \<longrightarrow>
            regenerate db oldID newID la ex w = ((0, None), w)) \<and>
         (store_health w = Healthy \<and> distinct (map session_id (sessions w)) \<and>
          oldID \<in> set (map session_id (sessions w)) \<and>
          newID \<notin> set (map session_id (filter (\<lambda>r. session_id r \<noteq> oldID) (sessions w))) \<longrightarrow>
            fst (regenerate db oldID newID la ex w) = (1, None))"
proof (cases "store_health w = Healthy")
  case True
  note eq = regenerate_Healthy [OF built True, of oldID newID la ex]
  have none: "filter (\<lambda>r. session_id r = oldID) (sessions w) = []"
    if "oldID \<notin> set (map session_id (sessions w))"
    using that by (auto simp: filter_empty_conv)
  have one: "length (filter (\<lambda>r. session_id r = oldID) (sessions w)) = 1"
    if "distinct (map session_id (sessions w))" "oldID \<in> set (map session_id (sessions w))"
    using that by (rule filter_key_distinct)
  show ?thesis
  proof (cases "filter (\<lambda>r. session_id r = oldID) (sessions w) = []")
    case True
    then have "regenerate db oldID newID la ex w = ((0, None), w)"
      by (simp add: eq)
    then show ?thesis
      using True one by (auto simp: map_id_on_filter_empty)
  next
    case False
    then show ?thesis
      using one none by (auto simp: eq Let_def)
  qed
next
  case False
  then obtain e where "regenerate db oldID newID la ex w = ((0, Some e), w)"
    using Exec_unhealthy [of w db] unfolding regenerate_def by blast
  then show ?thesis using False by simp
qed

theorem regenerate_renames_in_place_witness:
  "regenerate sample_dao ''s1'' ''s7'' 1100 60000000000 sample_world
     = ((1, None),
        sample_world\<lparr>sessions := [forever_row,
          \<lparr>session_id = ''s7'', col_contents = ''a'', last_active = 1100, col_expiration = 60\<rparr>,
          recent_row]\<rparr>) \<and>
   regenerate sample_dao ''gone'' ''s7'' 1100 60000000000 sample_world = ((0, None), sample_world)"
proof -
  let ?R = "regenerate sample_dao ''s1'' ''s7'' 1100 60000000000 sample_world"
  note t = regenerate_renames_in_place [OF sample_dao_built, of "''s1''" "''s7''" 1100 60000000000 sample_world]
  have r: "fst ?R = (1, None)"
    using t by (simp add: sample_defs)
  then have "snd (fst ?R) = None" by simp
  with t have rows: "sessions (snd ?R) = [forever_row,
          \<lparr>session_id = ''s7'', col_contents = ''a'', last_active = 1100, col_expiration = 60\<rparr>,
          recent_row]"
    by (simp add: sample_defs)
  from t have "snd ?R = sample_world\<lparr>sessions := sessions (snd ?R)\<rparr>" by blast
  with rows have w: "snd ?R = sample_world\<lparr>sessions := [forever_row,
          \<lparr>session_id = ''s7'', col_contents = ''a'', last_active = 1100, col_expiration = 60\<rparr>,
          recent_row]\<rparr>"
    by simp
  have gone: "regenerate sample_dao ''gone'' ''s7'' 1100 60000000000 sample_world = ((0, None), sample_world)"
    using regenerate_renames_in_place [OF sample_dao_built, of "''gone''" "''s7''" 1100 60000000000 sample_world]
    by (simp add: sample_defs)
  show ?thesis
    using r w gone by (simp add: prod_eq_iff)
qed

subsection \<open>Insert, then fetch\<close>

lemma insert_session_Healthy:
  assumes built: "fst (NewDao sqlOpen driver dsn tn) = Some db"
    and up: "store_health w = Healthy"
  shows "insert_session db sid cont la ex w =
           (if sid \<in> set (map session_id (sessions w))
            then ((0, Some (Failure ''unique_violation'')), w)
            else ((1, None),
                  w\<lparr>sessions := sessions w @
                       [\<lparr>session_id = sid, col_contents = cont, last_active = sint la,
                         col_expiration = sint ex sdiv 1000000000\<rparr>]\<rparr>))"
  by (simp add: insert_session_def Exec_Healthy [OF up prepare_built(6) [OF built]]
        run_exec_def sint_div_int64_Second)

text \<open>
  C1: for an expiration of a whole number \<open>secs >= 0\<close> of seconds, an \<open>insert\<close> that
  returns without error reports one row, and the fetch of the same identifier that follows
  it returns a record with the identifier, contents and lastActive that were inserted and
  with the inserted expiration, which converts back to exactly \<open>secs\<close> seconds.
\<close>

theorem insert_then_fetch_round_trip:
  assumes built: "fst (NewDao sqlOpen driver dsn tn) = Some db"
    and ins: "insert_session db sid cont la ex w = ((n, None), w1)"
    and secs: "0 \<le> secs" "secs * 1000000000 < 2 ^ 63" "ex = word_of_int (secs * 1000000000)"
  shows "n = 1 \<and>
         getSessionBySessionID db sid w1 =
           (Inr \<lparr>sessionID = sid, contents = cont, lastActive = la, expiration = ex\<rparr>,
            w1\<lparr>dbRowPool := tl (dbRowPool w1)\<rparr>) \<and>
         sint (div_int64 ex Second) = secs"
proof -
  have "snd (fst (insert_session db sid cont la ex w)) = None"
    by (simp add: ins)
  then have up: "store_health w = Healthy"
    unfolding insert_session_def by (rule Exec_ok_Healthy)
  have fs: "fits_int64 (secs * 1000000000)"
    using secs by (simp add: fits_int64_def)
  have sx: "sint ex = secs * 1000000000"
    unfolding secs(3) by (rule sint_word_of_int_fits [OF fs])
  have q: "sint ex sdiv 1000000000 = secs"
    by (simp add: sx whole_seconds_sdiv)
  let ?row = "\<lparr>session_id = sid, col_contents = cont, last_active = sint la, col_expiration = secs\<rparr>"
  from ins have fresh: "sid \<notin> set (map session_id (sessions w))"
    and n: "n = 1" and w1: "w1 = w\<lparr>sessions := sessions w @ [?row]\<rparr>"
    by (auto simp: insert_session_Healthy [OF built up] q split: if_splits)
  have hit: "filter (\<lambda>r. session_id r = sid) (sessions w1) = [?row]"
    using fresh by (auto simp: w1 filter_empty_conv)
  have up1: "store_health w1 = Healthy" using up by (simp add: w1)
  have fsec: "fits_int64 secs" using secs by (simp add: fits_int64_def)
  have mul: "word_of_int secs * Second = ex"
    by (simp add: secs(3) Second_def)
  have "getSessionBySessionID db sid w1 =
          (Inr \<lparr>sessionID = sid, contents = cont, lastActive = la, expiration = ex\<rparr>,
           w1\<lparr>dbRowPool := tl (dbRowPool w1)\<rparr>)"
    using getSessionBySessionID_found [OF built up1 hit] fits_int64_sint [of la] fsec
    by (simp add: mul)
  then show ?thesis
    by (simp add: n sint_div_int64_Second q)
qed

theorem insert_then_fetch_round_trip_witness:
  "insert_session sample_dao ''s9'' ''a'' 1000 30000000000 sample_world
     = ((1, None),
        sample_world\<lparr>sessions := [forever_row, scenario_row, recent_row,
          \<lparr>session_id = ''s9'', col_contents = ''a'', last_active = 1000, col_expiration = 30\<rparr>]\<rparr>) \<and>
   getSessionBySessionID sample_dao ''s9''
     (sample_world\<lparr>sessions := [forever_row, scenario_row, recent_row,
          \<lparr>session_id = ''s9'', col_contents = ''a'', last_active = 1000, col_expiration = 30\<rparr>]\<rparr>)
     = (Inr \<lparr>sessionID = ''s9'', contents = ''a'', lastActive = 1000, expiration = 30000000000\<rparr>,
        sample_world\<lparr>sessions := [forever_row, scenario_row, recent_row,
          \<lparr>session_id = ''s9'', col_contents = ''a'', last_active = 1000, col_expiration = 30\<rparr>]\<rparr>) \<and>
   sint (div_int64 30000000000 Second) = 30"
proof -
  have i: "insert_session sample_dao ''s9'' ''a'' 1000 30000000000 sample_world
     = ((1, None),
        sample_world\<lparr>sessions := [forever_row, scenario_row, recent_row,
          \<lparr>session_id = ''s9'', col_contents = ''a'', last_active = 1000, col_expiration = 30\<rparr>]\<rparr>)"
    by (simp add: insert_session_def store_defs sample_defs)
  have s: "(0::int) \<le> 30" "(30::int) * 1000000000 < 2 ^ 63"
    "(30000000000 :: int64) = word_of_int (30 * 1000000000)"
    by simp_all
  show ?thesis
    using i insert_then_fetch_round_trip [OF sample_dao_built i s] by (simp add: sample_defs)
qed

end
